theory Spec2Isabelle
  imports Complex_Main
begin

section \<open>Values exchanged with the game process\<close>

text \<open>
  The bot (\<^verbatim>\<open>main.py\<close>) bridges a Minecraft mod, connected over one WebSocket, and a
  Discord channel. Every frame of the mod is decoded by \<^verbatim>\<open>json.loads\<close>; the value it
  returns is modelled by \<open>json\<close>. A Python \<^verbatim>\<open>dict\<close> is an association list in insertion
  order (\<^verbatim>\<open>.items()\<close> of the \<^verbatim>\<open>/tps\<close> reply is rendered in that order); Python's
  unbounded \<^verbatim>\<open>int\<close> is \<open>int\<close>; a \<^verbatim>\<open>float\<close> is a rational or one of the three
  special values that \<^verbatim>\<open>json.loads\<close> accepts.
\<close>

datatype pyfloat = Finite rat | PosInf | NegInf | NaN

datatype json =
    JNull
  | JBool bool
  | JInt int
  | JFloat pyfloat
  | JStr string
  | JArr "json list"
  | JObj "(string \<times> json) list"

text \<open>
  The exceptions the handlers can meet, all of them subclasses of Python's
  \<^verbatim>\<open>Exception\<close>. \<open>OtherException\<close> stands for what the Discord, aiohttp and websockets
  libraries raise besides these (\<^verbatim>\<open>discord.HTTPException\<close>, \<^verbatim>\<open>aiohttp.ClientError\<close>,
  \<^verbatim>\<open>UnicodeDecodeError\<close>, ...), with its message. The cancellation of a task is
  not modelled.
\<close>

datatype exn =
    JSONDecodeError
  | AttributeError
  | KeyError string
  | TypeError
  | ValueError
  | OverflowError
  | TimeoutError
  | ConnectionClosed
  | OtherException string

text \<open>Truth value of a Python object, as \<^verbatim>\<open>if x:\<close> tests it.\<close>

fun truthy :: "json \<Rightarrow> bool" where
  "truthy JNull = False"
| "truthy (JBool b) = b"
| "truthy (JInt i) = (i \<noteq> 0)"
| "truthy (JFloat f) = (f \<noteq> Finite 0)"
| "truthy (JStr s) = (s \<noteq> [])"
| "truthy (JArr xs) = (xs \<noteq> [])"
| "truthy (JObj kvs) = (kvs \<noteq> [])"

text \<open>
  \<^verbatim>\<open>data.get(k)\<close>: only a \<^verbatim>\<open>dict\<close> has the method; a frame that decodes to a list,
  a string, a number, a boolean or \<^verbatim>\<open>null\<close> raises \<^verbatim>\<open>AttributeError\<close>. The result
  \<open>None\<close> is Python's \<^verbatim>\<open>None\<close> for a missing key.
\<close>

fun dict_get :: "json \<Rightarrow> string \<Rightarrow> exn + json option" where
  "dict_get (JObj kvs) k = Inr (map_of kvs k)"
| "dict_get _ k = Inl AttributeError"

text \<open>
  \<^verbatim>\<open>data[k]\<close> with a string key: \<^verbatim>\<open>KeyError\<close> on a \<^verbatim>\<open>dict\<close> without the key,
  \<^verbatim>\<open>TypeError\<close> on every other value (a list and a string want integer indices, the
  rest is not subscriptable).
\<close>

fun subscript :: "json \<Rightarrow> string \<Rightarrow> exn + json" where
  "subscript (JObj kvs) k = (case map_of kvs k of None \<Rightarrow> Inl (KeyError k) | Some v \<Rightarrow> Inr v)"
| "subscript _ k = Inl TypeError"

text \<open>
  Whether a value can be a dictionary key: \<^verbatim>\<open>x in pending_requests\<close> hashes \<open>x\<close>,
  and a \<^verbatim>\<open>list\<close> or \<^verbatim>\<open>dict\<close> raises \<^verbatim>\<open>TypeError\<close> there.
\<close>

fun hashable :: "json \<Rightarrow> bool" where
  "hashable (JArr xs) = False"
| "hashable (JObj kvs) = False"
| "hashable _ = True"

section \<open>What the bot emits\<close>

text \<open>
  The texts of the bot are Korean or English literals and f-strings. A constructor of
  \<open>msg\<close> names the literal and carries the values the f-string interpolates:
  \<open>JoinedMsg p\<close> is the f-string of line 159 around \<^verbatim>\<open>player_name\<close>, \<open>LeftMsg p\<close>
  that of line 170, \<open>DeathMsg m\<close> that of line 182; \<open>NotConnectedMsg\<close> is the literal
  of lines 247 and 292, \<open>NoResponseMsg\<close> that of lines 282 and 318,
  \<open>UnexpectedResponseMsg\<close> that of lines 279 and 315, \<open>ErrorMsg e\<close> the f-string of
  lines 284 and 320 around the exception.
\<close>

datatype msg =
    ServerStartedMsg
  | ServerStoppedMsg
  | JoinedMsg json
  | LeftMsg json
  | DeathMsg json
  | NotConnectedMsg
  | NoResponseMsg
  | UnexpectedResponseMsg
  | ErrorMsg exn

datatype color = Green | Red | DarkRed | Blue | Purple

text \<open>
  \<open>Mineatar u\<close> is the avatar address of lines 136, 156, 167 and 178, the f-string
  around \<^verbatim>\<open>player_uuid\<close>.
\<close>

datatype url = Mineatar json

text \<open>
  A \<^verbatim>\<open>discord.Embed\<close> as the bot builds it: a description with a colour (server
  started and stopped), an author line with an icon and a colour (join, leave, death),
  the player count with the optional list of names (\<^verbatim>\<open>/list\<close>), and one inline field
  for each dimension (\<^verbatim>\<open>/tps\<close>).
\<close>

datatype embed =
    StatusEmbed msg color
  | AuthorEmbed msg url color
  | PlayersEmbed json json "string list option"
  | TpsEmbed "(string \<times> json) list"

datatype followup = FEmbed embed | FText msg bool

datatype log =
    Connected
  | Disconnected
  | InvalidJSON string
  | ProcessingError exn
  | WebhookUnset
  | WebhookFailed nat string

type_synonym handle = nat
type_synonym channel = nat
type_synonym ref = nat

text \<open>
  Everything a handler does to the outside, in the order it does it. \<open>WsSend h j\<close> is
  \<^verbatim>\<open>h.send(json.dumps(j))\<close>; \<open>WebhookPost u name avatar content\<close> is the POST of line
  147 with the payload of lines 139 to 143. An effect is recorded when the call is
  made, also when the call then raises.
\<close>

datatype effect =
    ChannelSend channel embed
  | WebhookPost string json url json
  | WsSend handle json
  | InteractionReply msg
  | InteractionDefer
  | Followup followup
  | LogInfo log
  | LogWarning log
  | LogError log

section \<open>The shared state\<close>

text \<open>
  The three globals of lines 43 to 46 and the objects they reach. Line 260 stores a
  pair of references, to an \<^verbatim>\<open>asyncio.Event\<close> and to a \<^verbatim>\<open>dict\<close>, that the command
  handler keeps in its local variables as well; the read loop mutates both objects
  through the table. So the objects live in a store: \<open>events r\<close> is the flag of the
  event at \<open>r\<close>, \<open>storages r\<close> the dictionary at \<open>r\<close>, and \<open>next_ref\<close> the first
  address not yet allocated.
\<close>

record state =
  minecraft_client :: "handle option"
  bot_channel :: "channel option"
  pending_requests :: "string \<rightharpoonup> ref \<times> ref"
  events :: "ref \<Rightarrow> bool"
  storages :: "ref \<Rightarrow> (string \<rightharpoonup> json)"
  next_ref :: ref

text \<open>
  The module constants the handlers read: \<^verbatim>\<open>WEBHOOK_URL\<close> (an environment variable,
  \<^verbatim>\<open>None\<close> when unset), \<^verbatim>\<open>CHANNEL_ID\<close>, and \<^verbatim>\<open>client.user\<close>, the bot's own account
  (\<^verbatim>\<open>None\<close> before login).
\<close>

record config =
  WEBHOOK_URL :: "string option"
  CHANNEL_ID :: int
  client_user :: "nat option"

text \<open>
  The handlers are coroutines of one event loop: at an \<^verbatim>\<open>await\<close> the other tasks run,
  and the awaited call then returns or raises. An \<open>await\<close> gives both: \<open>interfere\<close>
  is what the other tasks did to the shared state meanwhile, \<open>raises\<close> the exception
  of the call, if any.
\<close>

record await =
  interfere :: "state \<Rightarrow> state"
  raises :: "exn option"

datatype http_response = HttpOk | HttpNotOk nat string

type_synonym outcome = "exn option \<times> state \<times> effect list"

section \<open>Inbound frames\<close>

text \<open>
  Lines 188 to 193: the response of a request that is still pending is stored in the
  request's dictionary and the request's event is set. \<^verbatim>\<open>Event.set()\<close> makes the flag
  true, whatever it was.
\<close>

definition resolve :: "json \<Rightarrow> state \<Rightarrow> exn option \<times> state" where
  "resolve data s =
     (case dict_get data ''request_id'' of
        Inl e \<Rightarrow> (Some e, s)
      | Inr request_id \<Rightarrow>
          (case request_id of
             Some (JStr rid) \<Rightarrow>
               (case pending_requests s rid of
                  Some (event, storage) \<Rightarrow>
                    (None, s\<lparr>storages := (storages s)(storage := (storages s storage)(''response'' \<mapsto> data)),
                              events := (events s)(event := True)\<rparr>)
                | None \<Rightarrow> (None, s))
           | Some v \<Rightarrow> if hashable v then (None, s) else (Some TypeError, s)
           | None \<Rightarrow> (None, s)))"

text \<open>\<^verbatim>\<open>if not WEBHOOK_URL\<close>: unset or empty.\<close>

definition webhook_target :: "config \<Rightarrow> string option" where
  "webhook_target cfg =
     (case WEBHOOK_URL cfg of None \<Rightarrow> None | Some u \<Rightarrow> if u = [] then None else Some u)"

text \<open>
  An \<^verbatim>\<open>await bot_channel.send(embed=...)\<close> (lines 99, 118, 162, 173 and 185).
\<close>

definition channel_send :: "channel \<Rightarrow> embed \<Rightarrow> await \<Rightarrow> state \<Rightarrow> outcome" where
  "channel_send c e aw s = (raises aw, interfere aw s, [ChannelSend c e])"

text \<open>
  \<^verbatim>\<open>process_minecraft_event\<close>, lines 120 to 197. \<open>aw\<close> is the one call the function
  awaits (the webhook POST or the channel send), \<open>resp\<close> the status of the webhook's
  reply. The keys of the table are the strings of \<^verbatim>\<open>str(uuid.uuid4())\<close>, so a
  \<^verbatim>\<open>request_id\<close> that is a number, a boolean or \<^verbatim>\<open>null\<close> is in no table. The test
  of lines 196 and 197 is the last statement: the function returns either way.
\<close>

definition process_minecraft_event ::
    "config \<Rightarrow> json \<Rightarrow> await \<Rightarrow> http_response \<Rightarrow> state \<Rightarrow> outcome" where
  "process_minecraft_event cfg data aw resp s =
     (case dict_get data ''type'' of
        Inl e \<Rightarrow> (Some e, s, [])
      | Inr event_type \<Rightarrow>
          (case bot_channel s of
             None \<Rightarrow> (None, s, [])
           | Some c \<Rightarrow>
               if event_type = Some (JStr ''chat'') then
                 (case webhook_target cfg of
                    None \<Rightarrow> (None, s, [LogWarning WebhookUnset])
                  | Some u \<Rightarrow>
                      (case subscript data ''player'' of
                         Inl e \<Rightarrow> (Some e, s, [])
                       | Inr player_name \<Rightarrow>
                      (case subscript data ''uuid'' of
                         Inl e \<Rightarrow> (Some e, s, [])
                       | Inr player_uuid \<Rightarrow>
                      (case subscript data ''message'' of
                         Inl e \<Rightarrow> (Some e, s, [])
                       | Inr message \<Rightarrow>
                           (case raises aw of
                              Some e \<Rightarrow>
                                (Some e, interfere aw s,
                                 [WebhookPost u player_name (Mineatar player_uuid) message])
                            | None \<Rightarrow>
                                (None, interfere aw s,
                                 WebhookPost u player_name (Mineatar player_uuid) message #
                                 (case resp of
                                    HttpOk \<Rightarrow> []
                                  | HttpNotOk status body \<Rightarrow>
                                      [LogError (WebhookFailed status body)])))))))
               else if event_type = Some (JStr ''join'') then
                 (case subscript data ''player'' of
                    Inl e \<Rightarrow> (Some e, s, [])
                  | Inr player_name \<Rightarrow>
                 (case subscript data ''uuid'' of
                    Inl e \<Rightarrow> (Some e, s, [])
                  | Inr player_uuid \<Rightarrow>
                      channel_send c
                        (AuthorEmbed (JoinedMsg player_name) (Mineatar player_uuid) Green) aw s))
               else if event_type = Some (JStr ''leave'') then
                 (case subscript data ''player'' of
                    Inl e \<Rightarrow> (Some e, s, [])
                  | Inr player_name \<Rightarrow>
                 (case subscript data ''uuid'' of
                    Inl e \<Rightarrow> (Some e, s, [])
                  | Inr player_uuid \<Rightarrow>
                      channel_send c
                        (AuthorEmbed (LeftMsg player_name) (Mineatar player_uuid) Red) aw s))
               else if event_type = Some (JStr ''death'') then
                 (case subscript data ''message'' of
                    Inl e \<Rightarrow> (Some e, s, [])
                  | Inr death_message \<Rightarrow>
                 (case subscript data ''uuid'' of
                    Inl e \<Rightarrow> (Some e, s, [])
                  | Inr player_uuid \<Rightarrow>
                      channel_send c
                        (AuthorEmbed (DeathMsg death_message) (Mineatar player_uuid) DarkRed) aw s))
               else if event_type = Some (JStr ''list_response'')
                     \<or> event_type = Some (JStr ''tps_response'') then
                 (case resolve data s of (r, s') \<Rightarrow> (r, s', []))
               else (None, s, [])))"

section \<open>The connection of the game process\<close>

text \<open>
  One inbound message of the read loop (line 103): its text, what the other tasks did
  while the loop waited for it, and the outcome of the call its handling awaits.
\<close>

record frame =
  message :: string
  arrival :: "state \<Rightarrow> state"
  call :: await
  webhook_response :: http_response

text \<open>
  The body of the loop, lines 104 to 110. \<open>loads\<close> is \<^verbatim>\<open>json.loads\<close>, a function of
  the standard library that returns the decoded value or raises. Both handlers log and
  fall through to the next iteration, so the body itself never raises.
\<close>

definition handle_frame ::
    "config \<Rightarrow> (string \<Rightarrow> exn + json) \<Rightarrow> frame \<Rightarrow> state \<Rightarrow> state \<times> effect list" where
  "handle_frame cfg loads f s =
     (case loads (message f) of
        Inl e \<Rightarrow>
          if e = JSONDecodeError then (s, [LogError (InvalidJSON (message f))])
          else (s, [LogError (ProcessingError e)])
      | Inr data \<Rightarrow>
          (case process_minecraft_event cfg data (call f) (webhook_response f) s of
             (None, s', es) \<Rightarrow> (s', es)
           | (Some e, s', es) \<Rightarrow>
               if e = JSONDecodeError then (s', es @ [LogError (InvalidJSON (message f))])
               else (s', es @ [LogError (ProcessingError e)])))"

text \<open>\<^verbatim>\<open>async for message in websocket\<close> over the messages that arrive before the close.\<close>

fun read_loop ::
    "config \<Rightarrow> (string \<Rightarrow> exn + json) \<Rightarrow> frame list \<Rightarrow> state \<Rightarrow> state \<times> effect list" where
  "read_loop cfg loads [] s = (s, [])"
| "read_loop cfg loads (f # fs) s =
     (case handle_frame cfg loads f (arrival f s) of
        (s', es) \<Rightarrow> (case read_loop cfg loads fs s' of (s'', es') \<Rightarrow> (s'', es @ es')))"

text \<open>
  One run of \<^verbatim>\<open>websocket_handler\<close>: the call that announces the server, the frames,
  what the other tasks did while the loop waited for the frame that never came, how the
  iteration ended (\<^verbatim>\<open>ConnectionClosed\<close> raised, or the iterator exhausted after a
  normal close), and the call that announces the stop.
\<close>

record connection =
  online_await :: await
  frames :: "frame list"
  close_arrival :: "state \<Rightarrow> state"
  closed_with_error :: bool
  offline_await :: await

text \<open>Line 93 and line 114, the two writes of the registry.\<close>

definition set_client :: "handle \<Rightarrow> state \<Rightarrow> state" where
  "set_client websocket s = s\<lparr>minecraft_client := Some websocket\<rparr>"

definition clear_client :: "state \<Rightarrow> state" where
  "clear_client s = s\<lparr>minecraft_client := None\<rparr>"

text \<open>
  The \<^verbatim>\<open>finally\<close> block, lines 113 to 118: the registry is cleared, then the stop is
  announced if the channel is known.
\<close>

definition ws_finally :: "await \<Rightarrow> state \<Rightarrow> outcome" where
  "ws_finally aw s =
     (let s1 = clear_client s in
      case bot_channel s1 of
        None \<Rightarrow> (None, s1, [])
      | Some c \<Rightarrow> channel_send c (StatusEmbed ServerStoppedMsg Red) aw s1)"

text \<open>
  Lines 92 to 112, the handler up to its \<^verbatim>\<open>finally\<close> block: the registration, the
  announcement of line 99, the read loop, and the log line of a close that raised
  \<^verbatim>\<open>ConnectionClosed\<close>. The announcement is outside the \<^verbatim>\<open>try\<close>: when it raises,
  the handler ends there.
\<close>

definition ws_until_close ::
    "config \<Rightarrow> (string \<Rightarrow> exn + json) \<Rightarrow> handle \<Rightarrow> connection \<Rightarrow> state \<Rightarrow> outcome" where
  "ws_until_close cfg loads websocket conn s =
     (let s1 = set_client websocket s;
          (r, s2, es1) =
            (case bot_channel s1 of
               None \<Rightarrow> (None, s1, [])
             | Some c \<Rightarrow>
                 channel_send c (StatusEmbed ServerStartedMsg Green) (online_await conn) s1)
      in case r of
           Some e \<Rightarrow> (Some e, s2, LogInfo Connected # es1)
         | None \<Rightarrow>
             (let (s3, es2) = read_loop cfg loads (frames conn) s2;
                  s4 = close_arrival conn s3;
                  es3 = (if closed_with_error conn then [LogInfo Disconnected] else [])
              in (None, s4, LogInfo Connected # es1 @ es2 @ es3)))"

text \<open>
  \<^verbatim>\<open>websocket_handler\<close>, lines 90 to 118: the \<^verbatim>\<open>finally\<close> block runs when the
  \<^verbatim>\<open>try\<close> statement was entered.
\<close>

definition websocket_handler ::
    "config \<Rightarrow> (string \<Rightarrow> exn + json) \<Rightarrow> handle \<Rightarrow> connection \<Rightarrow> state \<Rightarrow> outcome" where
  "websocket_handler cfg loads websocket conn s =
     (case ws_until_close cfg loads websocket conn s of
        (Some e, s', es) \<Rightarrow> (Some e, s', es)
      | (None, s4, es) \<Rightarrow>
          (case ws_finally (offline_await conn) s4 of
             (r', s5, es4) \<Rightarrow> (r', s5, es @ es4)))"

section \<open>Chat messages of the channel\<close>

record user =
  user_id :: nat
  bot :: bool
  display_name :: string

record chat_message =
  author :: user
  channel_id :: int
  content :: string

text \<open>
  \<^verbatim>\<open>on_message\<close>, lines 227 to 240. \<^verbatim>\<open>message.author == client.user\<close> compares the
  accounts' identifiers.
\<close>

definition on_message :: "config \<Rightarrow> chat_message \<Rightarrow> await \<Rightarrow> state \<Rightarrow> outcome" where
  "on_message cfg m aw s =
     (if Some (user_id (author m)) = client_user cfg \<or> channel_id m \<noteq> CHANNEL_ID cfg
      then (None, s, [])
      else
        (case minecraft_client s of
           None \<Rightarrow> (None, s, [])
         | Some h \<Rightarrow>
             if bot (author m) then (None, s, [])
             else
               (raises aw, interfere aw s,
                [WsSend h (JObj [(''type'', JStr ''discord_chat''),
                                 (''author'', JStr (display_name (author m))),
                                 (''message'', JStr (content m))])])))"

section \<open>The slash commands\<close>

datatype kind = ListCmd | TpsCmd

text \<open>
  What one invocation of \<^verbatim>\<open>/list\<close> or \<^verbatim>\<open>/tps\<close> meets: the outcome of each call it
  awaits, the string that \<^verbatim>\<open>str(uuid.uuid4())\<close> returns, and what the other tasks do
  while it waits for the event (\<open>wait_interfere\<close>). Each \<^verbatim>\<open>await\<close> of the handler is
  reached at most once in a run.
\<close>

record invocation =
  reply_await :: await
  defer_await :: await
  uuid4 :: string
  send_await :: await
  wait_interfere :: "state \<Rightarrow> state"
  followup_await :: await
  handler_await :: await

text \<open>
  Lines 258 to 260 and 300 to 302: a new event, not set, and a new empty dictionary are
  allocated and the pair is stored under the request's identifier, by a plain
  assignment to the table.
\<close>

definition register :: "string \<Rightarrow> state \<Rightarrow> (ref \<times> ref) \<times> state" where
  "register request_id s =
     (let event = next_ref s; storage = next_ref s
      in ((event, storage),
          s\<lparr>pending_requests := (pending_requests s)(request_id \<mapsto> (event, storage)),
            events := (events s)(event := False),
            storages := (storages s)(storage := Map.empty),
            next_ref := Suc (next_ref s)\<rparr>))"

text \<open>
  Python allocates every new object apart from the live ones. In the store that is the
  invariant that each reference of the table lies below \<open>next_ref\<close>.
\<close>

definition allocated :: "state \<Rightarrow> bool" where
  "allocated s \<longleftrightarrow>
     (\<forall>rid event storage.
        pending_requests s rid = Some (event, storage) \<longrightarrow>
        event < next_ref s \<and> storage < next_ref s)"

text \<open>Lines 287 and 322: \<^verbatim>\<open>pending_requests.pop(request_id, None)\<close>.\<close>

definition pop :: "string \<Rightarrow> state \<Rightarrow> state" where
  "pop request_id s = s\<lparr>pending_requests := (pending_requests s)(request_id := None)\<rparr>"

text \<open>
  \<^verbatim>\<open>"\n".join(players)\<close> of line 275, as the list of the joined lines: the elements
  of a list must all be strings, a string is joined character by character, a
  dictionary by its keys, and nothing else is iterable.
\<close>

fun as_str :: "json \<Rightarrow> string option" where
  "as_str (JStr s) = Some s"
| "as_str _ = None"

fun join_players :: "json \<Rightarrow> exn + string list" where
  "join_players (JArr xs) =
     (if list_all (\<lambda>x. as_str x \<noteq> None) xs then Inr (map (\<lambda>x. the (as_str x)) xs)
      else Inl TypeError)"
| "join_players (JStr s) = Inr (map (\<lambda>c. [c]) s)"
| "join_players (JObj kvs) = Inr (map fst kvs)"
| "join_players _ = Inl TypeError"

text \<open>Lines 269 to 275: the embed of \<^verbatim>\<open>/list\<close>.\<close>

definition render_list :: "json \<Rightarrow> exn + embed" where
  "render_list response =
     (case subscript response ''count'' of
        Inl e \<Rightarrow> Inl e
      | Inr count \<Rightarrow>
     (case subscript response ''max'' of
        Inl e \<Rightarrow> Inl e
      | Inr max_players \<Rightarrow>
     (case subscript response ''players'' of
        Inl e \<Rightarrow> Inl e
      | Inr players \<Rightarrow>
          if truthy players then
            (case join_players players of
               Inl e \<Rightarrow> Inl e
             | Inr names \<Rightarrow> Inr (PlayersEmbed count max_players (Some names)))
          else Inr (PlayersEmbed count max_players None))))"

text \<open>
  The format \<^verbatim>\<open>{tps:.2f}\<close> of line 312 accepts numbers and booleans; an integer is
  converted to a float first, which raises \<^verbatim>\<open>OverflowError\<close> from the first integer
  that rounds beyond the largest double. A string raises \<^verbatim>\<open>ValueError\<close>, anything
  else \<^verbatim>\<open>TypeError\<close>.
\<close>

fun format_2f :: "json \<Rightarrow> exn option" where
  "format_2f (JInt i) = (if \<bar>i\<bar> < 2 ^ 1024 - 2 ^ 970 then None else Some OverflowError)"
| "format_2f (JFloat f) = None"
| "format_2f (JBool b) = None"
| "format_2f (JStr s) = Some ValueError"
| "format_2f _ = Some TypeError"

fun tps_fields :: "(string \<times> json) list \<Rightarrow> exn + (string \<times> json) list" where
  "tps_fields [] = Inr []"
| "tps_fields ((dimension, tps) # rest) =
     (case format_2f tps of
        Some e \<Rightarrow> Inl e
      | None \<Rightarrow>
          (case tps_fields rest of
             Inl e \<Rightarrow> Inl e
           | Inr fs \<Rightarrow> Inr ((dimension, tps) # fs)))"

text \<open>
  Lines 310 to 312: the embed of \<^verbatim>\<open>/tps\<close>, one field for each item of
  \<^verbatim>\<open>response['dimensions']\<close>, which must be a dictionary to have \<^verbatim>\<open>.items()\<close>.
\<close>

definition render_tps :: "json \<Rightarrow> exn + embed" where
  "render_tps response =
     (case subscript response ''dimensions'' of
        Inl e \<Rightarrow> Inl e
      | Inr (JObj items) \<Rightarrow>
          (case tps_fields items of Inl e \<Rightarrow> Inl e | Inr fs \<Rightarrow> Inr (TpsEmbed fs))
      | Inr _ \<Rightarrow> Inl AttributeError)"

fun render :: "kind \<Rightarrow> json \<Rightarrow> exn + embed" where
  "render ListCmd = render_list"
| "render TpsCmd = render_tps"

fun request_type :: "kind \<Rightarrow> string" where
  "request_type ListCmd = ''get_list''"
| "request_type TpsCmd = ''get_tps''"

text \<open>The follow-up texts of \<^verbatim>\<open>/list\<close> are public, those of \<^verbatim>\<open>/tps\<close> ephemeral.\<close>

fun ephemeral :: "kind \<Rightarrow> bool" where
  "ephemeral ListCmd = False"
| "ephemeral TpsCmd = True"

text \<open>
  The two \<^verbatim>\<open>except\<close> clauses, lines 281 to 284 and 317 to 320: a follow-up that
  names the failure. When this follow-up raises, the exception leaves the handler.
\<close>

definition handle_exception :: "kind \<Rightarrow> exn \<Rightarrow> await \<Rightarrow> state \<Rightarrow> outcome" where
  "handle_exception k e aw s =
     (raises aw, interfere aw s,
      [Followup (FText (if e = TimeoutError then NoResponseMsg else ErrorMsg e) (ephemeral k))])"

text \<open>
  The \<^verbatim>\<open>try\<close> block with its \<^verbatim>\<open>except\<close> clauses, lines 262 to 284 and 304 to 320,
  for the request registered under \<open>request_id\<close> with the dictionary at \<open>storage\<close> and
  the event at \<open>event\<close>. \<^verbatim>\<open>minecraft_client\<close> is read again at line 263: when the
  registry was cleared during the \<^verbatim>\<open>defer\<close>, \<^verbatim>\<open>None.send\<close> raises
  \<^verbatim>\<open>AttributeError\<close>. \<^verbatim>\<open>wait_for\<close> returns when the event is set within the five
  seconds and raises \<^verbatim>\<open>TimeoutError\<close> otherwise.
\<close>

definition try_request ::
    "kind \<Rightarrow> invocation \<Rightarrow> string \<Rightarrow> ref \<Rightarrow> ref \<Rightarrow> state \<Rightarrow> outcome" where
  "try_request k rq request_id event storage s =
     (case minecraft_client s of
        None \<Rightarrow> handle_exception k AttributeError (handler_await rq) s
      | Some h \<Rightarrow>
          (let request = JObj [(''type'', JStr (request_type k)), (''request_id'', JStr request_id)];
               sent = [WsSend h request];
               s1 = interfere (send_await rq) s
           in case raises (send_await rq) of
                Some e \<Rightarrow>
                  (case handle_exception k e (handler_await rq) s1 of
                     (r, s', es) \<Rightarrow> (r, s', sent @ es))
              | None \<Rightarrow>
                  (let s2 = wait_interfere rq s1 in
                   if \<not> events s2 event then
                     (case handle_exception k TimeoutError (handler_await rq) s2 of
                        (r, s', es) \<Rightarrow> (r, s', sent @ es))
                   else
                     (let reply =
                            (case storages s2 storage ''response'' of
                               None \<Rightarrow> Inr (FText UnexpectedResponseMsg (ephemeral k))
                             | Some response \<Rightarrow>
                                 if truthy response then
                                   (case render k response of
                                      Inl e \<Rightarrow> Inl e
                                    | Inr em \<Rightarrow> Inr (FEmbed em))
                                 else Inr (FText UnexpectedResponseMsg (ephemeral k)))
                      in case reply of
                           Inl e \<Rightarrow>
                             (case handle_exception k e (handler_await rq) s2 of
                                (r, s', es) \<Rightarrow> (r, s', sent @ es))
                         | Inr fu \<Rightarrow>
                             (let s3 = interfere (followup_await rq) s2 in
                              case raises (followup_await rq) of
                                None \<Rightarrow> (None, s3, sent @ [Followup fu])
                              | Some e \<Rightarrow>
                                  (case handle_exception k e (handler_await rq) s3 of
                                     (r, s', es) \<Rightarrow> (r, s', sent @ Followup fu # es)))))))"

text \<open>
  A whole command handler, lines 244 to 287 and 290 to 322: the connection check with
  its reply, the \<^verbatim>\<open>defer\<close>, the registration, the \<^verbatim>\<open>try\<close> block, and the
  \<^verbatim>\<open>finally\<close> clause that pops the identifier.
\<close>

definition command :: "kind \<Rightarrow> invocation \<Rightarrow> state \<Rightarrow> outcome" where
  "command k rq s =
     (case minecraft_client s of
        None \<Rightarrow>
          (raises (reply_await rq), interfere (reply_await rq) s,
           [InteractionReply NotConnectedMsg])
      | Some h \<Rightarrow>
          (let s1 = interfere (defer_await rq) s in
           case raises (defer_await rq) of
             Some e \<Rightarrow> (Some e, s1, [InteractionDefer])
           | None \<Rightarrow>
               (let request_id = uuid4 rq;
                    ((event, storage), s2) = register request_id s1;
                    (r, s3, es) = try_request k rq request_id event storage s2
                in (r, pop request_id s3, InteractionDefer # es))))"

definition list_command :: "invocation \<Rightarrow> state \<Rightarrow> outcome" where
  "list_command = command ListCmd"

definition tps_command :: "invocation \<Rightarrow> state \<Rightarrow> outcome" where
  "tps_command = command TpsCmd"

section \<open>Example runs\<close>

text \<open>A call that returns at once while no other task runs.\<close>

definition returns :: await where
  "returns = \<lparr>interfere = (\<lambda>s. s), raises = None\<rparr>"

definition cfg0 :: config where
  "cfg0 = \<lparr>WEBHOOK_URL = Some ''https://discord.example/hook'', CHANNEL_ID = 5,
           client_user = Some 9\<rparr>"

text \<open>The mod is connected as handle 1, the channel is known, nothing is pending.\<close>

definition connected :: state where
  "connected =
     \<lparr>minecraft_client = Some 1, bot_channel = Some 7, pending_requests = Map.empty,
      events = (\<lambda>_. False), storages = (\<lambda>_. Map.empty), next_ref = 0\<rparr>"

text \<open>The same with one request pending under \<open>''r1''\<close>, its objects at address 0.\<close>

definition waiting :: state where
  "waiting = connected\<lparr>pending_requests := [''r1'' \<mapsto> (0, 0)], next_ref := 1\<rparr>"

definition list_reply :: json where
  "list_reply =
     JObj [(''type'', JStr ''list_response''), (''request_id'', JStr ''r1''),
           (''count'', JInt 1), (''max'', JInt 20), (''players'', JArr [JStr ''A''])]"

text \<open>
  An invocation whose request gets the identifier \<open>''r1''\<close> and whose response is
  routed by the read loop while the handler waits.
\<close>

definition answered :: invocation where
  "answered =
     \<lparr>reply_await = returns, defer_await = returns, uuid4 = ''r1'', send_await = returns,
      wait_interfere =
        (\<lambda>s. fst (snd (process_minecraft_event cfg0 list_reply returns HttpOk s))),
      followup_await = returns, handler_await = returns\<rparr>"

text \<open>The pending request has been answered and its handler has not yet resumed.\<close>

definition resolved :: state where
  "resolved =
     waiting\<lparr>events := (\<lambda>r. r = 0),
             storages := (\<lambda>r. if r = 0 then [''response'' \<mapsto> list_reply] else Map.empty)\<rparr>"

text \<open>A second response to the same request, with another payload.\<close>

definition late_reply :: json where
  "late_reply =
     JObj [(''type'', JStr ''list_response''), (''request_id'', JStr ''r1''),
           (''count'', JInt 0), (''max'', JInt 20), (''players'', JArr [])]"

text \<open>A response to a request that is not in the table.\<close>

definition stray_reply :: json where
  "stray_reply =
     JObj [(''type'', JStr ''tps_response''), (''request_id'', JStr ''gone''),
           (''dimensions'', JObj [(''overworld'', JInt 20)])]"

text \<open>A response whose identifier is a JSON array.\<close>

definition unhashable_reply :: json where
  "unhashable_reply = JObj [(''type'', JStr ''list_response''), (''request_id'', JArr [])]"

text \<open>A chat event without the player's name and identifier.\<close>

definition nameless_chat :: json where
  "nameless_chat = JObj [(''type'', JStr ''chat''), (''message'', JStr ''hi'')]"

text \<open>
  The texts of three frames, and a decoder that agrees with \<^verbatim>\<open>json.loads\<close> on them
  and on the malformed text \<open>''{oops''\<close>.
\<close>

definition list_reply_text :: string where
  \<open>list_reply_text =
     ''{"type": "list_response", "request_id": "r1", "count": 1, "max": 20, "players": ["A"]}''\<close>

definition late_reply_text :: string where
  \<open>late_reply_text =
     ''{"type": "list_response", "request_id": "r1", "count": 0, "max": 20, "players": []}''\<close>

definition nameless_chat_text :: string where
  \<open>nameless_chat_text = ''{"type": "chat", "message": "hi"}''\<close>

definition decode :: "string \<Rightarrow> exn + json" where
  "decode m =
     (if m = list_reply_text then Inr list_reply
      else if m = late_reply_text then Inr late_reply
      else if m = nameless_chat_text then Inr nameless_chat
      else Inl JSONDecodeError)"

definition inbound :: "string \<Rightarrow> frame" where
  "inbound m =
     \<lparr>message = m, arrival = (\<lambda>s. s), call = returns, webhook_response = HttpOk\<rparr>"

text \<open>
  A connection during whose life the mod connects again: the handler of the new
  connection, handle 2, runs its line 93 before the close of the old one is noticed.
\<close>

definition replaced :: connection where
  "replaced =
     \<lparr>online_await = returns, frames = [], close_arrival = set_client 2,
      closed_with_error = True, offline_await = returns\<rparr>"

definition disconnected :: state where
  "disconnected = connected\<lparr>minecraft_client := None\<rparr>"

text \<open>The channel is not known (\<^verbatim>\<open>on_ready\<close> has not found it) while a request waits.\<close>

definition waiting_unready :: state where
  "waiting_unready = waiting\<lparr>bot_channel := None\<rparr>"

definition alice :: chat_message where
  "alice =
     \<lparr>author = \<lparr>user_id = 3, bot = False, display_name = ''Alice''\<rparr>,
      channel_id = 5, content = ''hello''\<rparr>"

definition other_bot :: chat_message where
  "other_bot =
     \<lparr>author = \<lparr>user_id = 4, bot = True, display_name = ''Relay''\<rparr>,
      channel_id = 5, content = ''hello''\<rparr>"

text \<open>An invocation whose request is never answered, and one whose send raises.\<close>

definition unanswered :: invocation where
  "unanswered = answered\<lparr>wait_interfere := (\<lambda>s. s)\<rparr>"

definition send_fails :: invocation where
  "send_fails =
     answered\<lparr>send_await := \<lparr>interfere = (\<lambda>s. s), raises = Some ConnectionClosed\<rparr>\<rparr>"

section \<open>Cleanup of the pending-request table\<close>

lemma pop_removes: "pending_requests (pop request_id s) request_id = None"
  by (simp add: pop_def)

text \<open>
  Claim C1. An invocation of \<^verbatim>\<open>/list\<close> or \<^verbatim>\<open>/tps\<close> that passes the connection check
  and whose \<^verbatim>\<open>defer\<close> returns registers its identifier; when the handler ends, the
  table has no entry under that identifier. This holds on every path through the
  \<^verbatim>\<open>try\<close> block: the response arrived, the wait timed out, the send raised, the
  rendering raised, a follow-up raised (also the one inside an \<^verbatim>\<open>except\<close> clause), and
  whatever the other tasks did to the state at each \<^verbatim>\<open>await\<close>.
\<close>

theorem command_pops_request_id:
  assumes "minecraft_client s \<noteq> None" and "raises (defer_await rq) = None"
  shows "pending_requests (fst (snd (list_command rq s))) (uuid4 rq) = None
       \<and> pending_requests (fst (snd (tps_command rq s))) (uuid4 rq) = None"
  using assms
  by (auto simp: list_command_def tps_command_def command_def Let_def pop_removes
           split: prod.splits)

theorem command_pops_request_id_witness:
  "minecraft_client connected \<noteq> None \<and> raises (defer_await answered) = None
   \<and> pending_requests (fst (snd (list_command answered connected))) ''r1'' = None
   \<and> pending_requests (fst (snd (tps_command answered connected))) ''r1'' = None
   \<and> pending_requests (fst (snd (list_command unanswered connected))) ''r1'' = None
   \<and> pending_requests (fst (snd (list_command send_fails connected))) ''r1'' = None"
  using command_pops_request_id [of connected answered]
        command_pops_request_id [of connected unanswered]
        command_pops_request_id [of connected send_fails]
  by (simp add: connected_def answered_def unanswered_def send_fails_def returns_def)

text \<open>
  The three runs of the witness take three different paths: the response is rendered,
  the wait times out, the send raises.
\<close>

lemma command_paths:
  "snd (snd (list_command answered connected)) =
     [InteractionDefer,
      WsSend 1 (JObj [(''type'', JStr ''get_list''), (''request_id'', JStr ''r1'')]),
      Followup (FEmbed (PlayersEmbed (JInt 1) (JInt 20) (Some [''A''])))]"
  "snd (snd (list_command unanswered connected)) =
     [InteractionDefer,
      WsSend 1 (JObj [(''type'', JStr ''get_list''), (''request_id'', JStr ''r1'')]),
      Followup (FText NoResponseMsg False)]"
  "snd (snd (list_command send_fails connected)) =
     [InteractionDefer,
      WsSend 1 (JObj [(''type'', JStr ''get_list''), (''request_id'', JStr ''r1'')]),
      Followup (FText (ErrorMsg ConnectionClosed) False)]"
  by (simp_all add: list_command_def command_def try_request_def register_def pop_def
        handle_exception_def answered_def unanswered_def send_fails_def returns_def
        connected_def process_minecraft_event_def resolve_def list_reply_def
        render_list_def Let_def)

section \<open>Routing of responses\<close>

lemma resolve_pending:
  assumes "dict_get data ''request_id'' = Inr (Some (JStr rid))"
    and "pending_requests s rid = Some (event, storage)"
  shows "resolve data s =
     (None,
      s\<lparr>storages := (storages s)(storage := (storages s storage)(''response'' \<mapsto> data)),
        events := (events s)(event := True)\<rparr>)"
  using assms by (simp add: resolve_def)

lemma process_response:
  assumes "dict_get data ''type'' = Inr (Some (JStr t))"
    and "t = ''list_response'' \<or> t = ''tps_response''"
    and "bot_channel s = Some c"
  shows "process_minecraft_event cfg data aw resp s =
           (case resolve data s of (r, s') \<Rightarrow> (r, s', []))"
  using assms by (auto simp: process_minecraft_event_def)

lemma process_pending_response:
  assumes "dict_get data ''type'' = Inr (Some (JStr t))"
    and "t = ''list_response'' \<or> t = ''tps_response''"
    and "dict_get data ''request_id'' = Inr (Some (JStr rid))"
    and "pending_requests s rid = Some (event, storage)"
    and "bot_channel s \<noteq> None"
  shows "process_minecraft_event cfg data aw resp s =
     (None,
      s\<lparr>storages := (storages s)(storage := (storages s storage)(''response'' \<mapsto> data)),
        events := (events s)(event := True)\<rparr>,
      [])"
proof -
  from assms(5) obtain c where "bot_channel s = Some c" by auto
  then show ?thesis
    using process_response [OF assms(1) assms(2)] resolve_pending [OF assms(3) assms(4)]
    by simp
qed

text \<open>
  Claim C2 as stated fails. The guard of lines 124 and 125 returns before the routing
  of lines 187 to 194: while \<^verbatim>\<open>bot_channel\<close> is \<^verbatim>\<open>None\<close>, a \<^verbatim>\<open>list_response\<close> that
  carries the identifier of a pending request leaves the request's dictionary empty
  and its event unset.
\<close>

theorem response_dropped_without_channel:
  "pending_requests waiting_unready ''r1'' = Some (0, 0)
   \<and> dict_get list_reply ''type'' = Inr (Some (JStr ''list_response''))
   \<and> dict_get list_reply ''request_id'' = Inr (Some (JStr ''r1''))
   \<and> storages (fst (snd (process_minecraft_event cfg0 list_reply returns HttpOk
                            waiting_unready))) 0 ''response'' = None
   \<and> \<not> events (fst (snd (process_minecraft_event cfg0 list_reply returns HttpOk
                              waiting_unready))) 0"
  by (simp add: process_minecraft_event_def list_reply_def waiting_unready_def waiting_def
        connected_def)

text \<open>
  Claim C2, amended. For every inbound frame of type \<^verbatim>\<open>list_response\<close> or
  \<^verbatim>\<open>tps_response\<close> that carries the identifier of a registered request, in every state
  in which the notification channel is configured: processing the frame stores the
  frame in the response slot of that entry and sets its event, returns normally, and
  does nothing else (no effect is emitted, no other part of the state changes).
\<close>

theorem response_routed_when_channel_set:
  assumes "dict_get data ''type'' = Inr (Some (JStr t))"
    and "t = ''list_response'' \<or> t = ''tps_response''"
    and "dict_get data ''request_id'' = Inr (Some (JStr rid))"
    and "pending_requests s rid = Some (event, storage)"
    and "bot_channel s \<noteq> None"
  shows "process_minecraft_event cfg data aw resp s =
     (None,
      s\<lparr>storages := (storages s)(storage := (storages s storage)(''response'' \<mapsto> data)),
        events := (events s)(event := True)\<rparr>,
      [])"
  using assms by (rule process_pending_response)

theorem response_routed_when_channel_set_witness:
  "dict_get list_reply ''type'' = Inr (Some (JStr ''list_response''))
   \<and> dict_get list_reply ''request_id'' = Inr (Some (JStr ''r1''))
   \<and> pending_requests waiting ''r1'' = Some (0, 0)
   \<and> bot_channel waiting \<noteq> None
   \<and> process_minecraft_event cfg0 list_reply returns HttpOk waiting =
       (None,
        waiting\<lparr>storages := (storages waiting)(0 := [''response'' \<mapsto> list_reply]),
                events := (events waiting)(0 := True)\<rparr>,
        [])"
  using response_routed_when_channel_set
          [of list_reply "''list_response''" "''r1''" waiting 0 0 cfg0 returns HttpOk]
  by (simp add: list_reply_def waiting_def connected_def)

text \<open>
  Claim C3 as stated fails. The read loop receives two responses with the identifier
  of the same pending request before the entry is removed. After the first the slot
  holds the first payload, after the second the other payload: the slot was written
  twice.
\<close>

theorem response_slot_overwritten:
  "pending_requests waiting ''r1'' = Some (0, 0)
   \<and> storages (fst (read_loop cfg0 decode [inbound list_reply_text] waiting)) 0 ''response''
       = Some list_reply
   \<and> pending_requests (fst (read_loop cfg0 decode [inbound list_reply_text] waiting)) ''r1''
       = Some (0, 0)
   \<and> storages (fst (read_loop cfg0 decode [inbound list_reply_text, inbound late_reply_text] waiting)) 0
        ''response'' = Some late_reply
   \<and> list_reply \<noteq> late_reply"
  by (simp add: handle_frame_def process_minecraft_event_def resolve_def decode_def
        list_reply_text_def late_reply_text_def nameless_chat_text_def
        inbound_def returns_def list_reply_def late_reply_def waiting_def connected_def)

text \<open>
  Claim C3, amended. While an entry is registered and the channel is configured, every
  response frame with the entry's identifier writes its own payload into the response
  slot and sets the event. Of two such frames the slot holds the first payload after
  the first and the second payload after the second; the event is set after the first
  and stays set; the entry stays registered.
\<close>

theorem latest_response_kept:
  assumes "dict_get d1 ''type'' = Inr (Some (JStr t1))"
    and "t1 = ''list_response'' \<or> t1 = ''tps_response''"
    and "dict_get d1 ''request_id'' = Inr (Some (JStr rid))"
    and "dict_get d2 ''type'' = Inr (Some (JStr t2))"
    and "t2 = ''list_response'' \<or> t2 = ''tps_response''"
    and "dict_get d2 ''request_id'' = Inr (Some (JStr rid))"
    and "pending_requests s rid = Some (event, storage)"
    and "bot_channel s \<noteq> None"
  shows "let s1 = fst (snd (process_minecraft_event cfg d1 aw1 resp1 s));
             s2 = fst (snd (process_minecraft_event cfg d2 aw2 resp2 s1))
         in storages s1 storage ''response'' = Some d1 \<and> events s1 event
          \<and> storages s2 storage ''response'' = Some d2 \<and> events s2 event
          \<and> pending_requests s2 rid = Some (event, storage)"
proof -
  define s1 where "s1 = fst (snd (process_minecraft_event cfg d1 aw1 resp1 s))"
  define s2 where "s2 = fst (snd (process_minecraft_event cfg d2 aw2 resp2 s1))"
  have first:
    "s1 = s\<lparr>storages := (storages s)(storage := (storages s storage)(''response'' \<mapsto> d1)),
            events := (events s)(event := True)\<rparr>"
    unfolding s1_def
    using process_pending_response [OF assms(1,2,3,7,8), of cfg aw1 resp1] by simp
  then have p1: "pending_requests s1 rid = Some (event, storage)"
    and c1: "bot_channel s1 \<noteq> None"
    using assms(7,8) by simp_all
  have second:
    "s2 = s1\<lparr>storages := (storages s1)(storage := (storages s1 storage)(''response'' \<mapsto> d2)),
             events := (events s1)(event := True)\<rparr>"
    unfolding s2_def
    using process_pending_response [OF assms(4,5,6) p1 c1, of cfg aw2 resp2] by simp
  have "storages s1 storage ''response'' = Some d1 \<and> events s1 event
      \<and> storages s2 storage ''response'' = Some d2 \<and> events s2 event
      \<and> pending_requests s2 rid = Some (event, storage)"
    using first second p1 by simp
  then show ?thesis
    unfolding s1_def s2_def Let_def .
qed

theorem latest_response_kept_witness:
  "pending_requests waiting ''r1'' = Some (0, 0) \<and> bot_channel waiting \<noteq> None
   \<and> storages (fst (snd (process_minecraft_event cfg0 list_reply returns HttpOk waiting))) 0
       ''response'' = Some list_reply
   \<and> storages (fst (snd (process_minecraft_event cfg0 late_reply returns HttpOk
        (fst (snd (process_minecraft_event cfg0 list_reply returns HttpOk waiting)))))) 0
       ''response'' = Some late_reply
   \<and> events (fst (snd (process_minecraft_event cfg0 late_reply returns HttpOk
        (fst (snd (process_minecraft_event cfg0 list_reply returns HttpOk waiting)))))) 0"
  using latest_response_kept
          [of list_reply "''list_response''" "''r1''" late_reply "''list_response''"
              waiting 0 0 cfg0 returns HttpOk returns HttpOk]
  by (simp add: list_reply_def late_reply_def waiting_def connected_def Let_def)

lemma resolve_unknown:
  assumes "dict_get data ''request_id'' = Inr request_id"
    and "\<forall>rid. request_id = Some (JStr rid) \<longrightarrow> pending_requests s rid = None"
  shows "resolve data s =
           (if \<exists>v. request_id = Some v \<and> \<not> hashable v then Some TypeError else None, s)"
  using assms by (auto simp: resolve_def split: option.splits json.splits)

text \<open>
  Claim C7 as stated fails. A response frame whose \<^verbatim>\<open>request_id\<close> is a JSON array is
  in no table, and the membership test of line 189 raises \<^verbatim>\<open>TypeError\<close> on it
  (a list cannot be hashed).
\<close>

theorem unhashable_request_id_raises:
  "dict_get unhashable_reply ''type'' = Inr (Some (JStr ''list_response''))
   \<and> dict_get unhashable_reply ''request_id'' = Inr (Some (JArr []))
   \<and> fst (process_minecraft_event cfg0 unhashable_reply returns HttpOk waiting)
       = Some TypeError"
  by (simp add: process_minecraft_event_def resolve_def unhashable_reply_def waiting_def
        connected_def)

text \<open>
  Claim C7, amended. A response frame whose \<^verbatim>\<open>request_id\<close> is not the key of a
  registered entry leaves the whole state as it was, so every pending entry keeps its
  response slot and its event, and emits nothing. It raises no exception when the
  \<^verbatim>\<open>request_id\<close> is hashable (a string that is unknown or no longer registered, a
  number, a boolean, \<^verbatim>\<open>null\<close>, or none at all); an array or an object raises
  \<^verbatim>\<open>TypeError\<close> at the membership test when the channel is configured.
\<close>

theorem unknown_response_ignored:
  assumes "dict_get data ''type'' = Inr (Some (JStr t))"
    and "t = ''list_response'' \<or> t = ''tps_response''"
    and "dict_get data ''request_id'' = Inr request_id"
    and "\<forall>rid. request_id = Some (JStr rid) \<longrightarrow> pending_requests s rid = None"
  shows "process_minecraft_event cfg data aw resp s =
           (if bot_channel s \<noteq> None \<and> (\<exists>v. request_id = Some v \<and> \<not> hashable v)
            then Some TypeError else None,
            s, [])"
  using assms(1,2) resolve_unknown [OF assms(3,4)]
  by (auto simp: process_minecraft_event_def split: option.splits)

theorem unknown_response_ignored_witness:
  "dict_get stray_reply ''type'' = Inr (Some (JStr ''tps_response''))
   \<and> dict_get stray_reply ''request_id'' = Inr (Some (JStr ''gone''))
   \<and> pending_requests waiting ''gone'' = None
   \<and> process_minecraft_event cfg0 stray_reply returns HttpOk waiting = (None, waiting, [])"
  using unknown_response_ignored
          [of stray_reply "''tps_response''" "Some (JStr ''gone'')" waiting cfg0 returns HttpOk]
  by (simp add: stray_reply_def waiting_def connected_def)

section \<open>Registration\<close>

text \<open>
  Claim C5 as stated fails. With \<open>''r1''\<close> already in the table, a registration under
  \<open>''r1''\<close> raises nothing: it replaces the entry by the new pair, and the command that
  made it goes on to send its request and to answer the interaction.
\<close>

theorem register_overwrites_existing:
  "pending_requests waiting ''r1'' = Some (0, 0)
   \<and> fst (register ''r1'' waiting) = (1, 1)
   \<and> pending_requests (snd (register ''r1'' waiting)) ''r1'' = Some (1, 1)
   \<and> fst (list_command answered waiting) = None
   \<and> snd (snd (list_command answered waiting)) =
       [InteractionDefer,
        WsSend 1 (JObj [(''type'', JStr ''get_list''), (''request_id'', JStr ''r1'')]),
        Followup (FEmbed (PlayersEmbed (JInt 1) (JInt 20) (Some [''A''])))]"
  by (simp add: register_def list_command_def command_def try_request_def answered_def
        returns_def waiting_def connected_def process_minecraft_event_def resolve_def
        list_reply_def render_list_def pop_def Let_def)

text \<open>
  The allocation invariant holds before anything is registered, and the three
  operations on the table keep it.
\<close>

lemma allocated_connected: "allocated connected"
  by (simp add: allocated_def connected_def)

lemma allocated_register: "allocated s \<Longrightarrow> allocated (snd (register request_id s))"
  by (fastforce simp: allocated_def register_def Let_def split: if_splits)

lemma allocated_pop: "allocated s \<Longrightarrow> allocated (pop request_id s)"
  by (auto simp: allocated_def pop_def split: if_splits)

lemma allocated_resolve: "allocated s \<Longrightarrow> allocated (snd (resolve data s))"
  by (auto simp: allocated_def resolve_def split: sum.splits option.splits json.splits)

text \<open>
  Claim C5, amended. A registration never fails, also under an identifier that is
  already present: it stores a fresh pair of an unset event and an empty response slot
  under the identifier, in place of whatever was there. The pair is fresh: no entry of
  the table before referred to its event or its slot. Every other identifier keeps
  its entry, and the event and the slot of every entry that was in the table (also of
  the replaced one, which its own handler still holds) keep their contents.
\<close>

theorem register_replaces_entry:
  assumes "allocated s"
  shows "fst (register request_id s) = (next_ref s, next_ref s)
   \<and> pending_requests (snd (register request_id s)) request_id = Some (next_ref s, next_ref s)
   \<and> \<not> events (snd (register request_id s)) (next_ref s)
   \<and> storages (snd (register request_id s)) (next_ref s) = Map.empty
   \<and> (\<forall>rid event storage.
         pending_requests s rid = Some (event, storage) \<longrightarrow>
         event \<noteq> next_ref s \<and> storage \<noteq> next_ref s)
   \<and> (\<forall>other. other \<noteq> request_id \<longrightarrow>
         pending_requests (snd (register request_id s)) other = pending_requests s other)
   \<and> (\<forall>rid event storage.
         pending_requests s rid = Some (event, storage) \<longrightarrow>
         events (snd (register request_id s)) event = events s event
         \<and> storages (snd (register request_id s)) storage = storages s storage)
   \<and> allocated (snd (register request_id s))"
proof -
  have fresh: "event \<noteq> next_ref s \<and> storage \<noteq> next_ref s"
    if "pending_requests s rid = Some (event, storage)" for rid event storage
    using assms that by (fastforce simp: allocated_def)
  have kept: "events (snd (register request_id s)) event = events s event
      \<and> storages (snd (register request_id s)) storage = storages s storage"
    if "pending_requests s rid = Some (event, storage)" for rid event storage
    using fresh [OF that] by (simp add: register_def Let_def)
  have table: "fst (register request_id s) = (next_ref s, next_ref s)
      \<and> pending_requests (snd (register request_id s)) request_id
          = Some (next_ref s, next_ref s)
      \<and> \<not> events (snd (register request_id s)) (next_ref s)
      \<and> storages (snd (register request_id s)) (next_ref s) = Map.empty
      \<and> (\<forall>other. other \<noteq> request_id \<longrightarrow>
            pending_requests (snd (register request_id s)) other = pending_requests s other)"
    by (simp add: register_def Let_def)
  show ?thesis
    using table fresh kept allocated_register [OF assms] by blast
qed

theorem register_replaces_entry_witness:
  "allocated resolved
   \<and> pending_requests resolved ''r1'' = Some (0, 0)
   \<and> fst (register ''r1'' resolved) = (1, 1)
   \<and> pending_requests (snd (register ''r1'' resolved)) ''r1'' = Some (1, 1)
   \<and> \<not> events (snd (register ''r1'' resolved)) 1
   \<and> storages (snd (register ''r1'' resolved)) 1 = Map.empty
   \<and> events (snd (register ''r1'' resolved)) 0
   \<and> storages (snd (register ''r1'' resolved)) 0 ''response'' = Some list_reply
   \<and> pending_requests (snd (register ''r2'' resolved)) ''r1'' = Some (0, 0)
   \<and> events (snd (register ''r2'' resolved)) 0
   \<and> storages (snd (register ''r2'' resolved)) 0 ''response'' = Some list_reply"
proof -
  have a: "allocated resolved"
    by (simp add: allocated_def resolved_def waiting_def connected_def)
  have p: "pending_requests resolved ''r1'' = Some (0, 0)"
    and n: "next_ref resolved = 1"
    and e: "events resolved 0"
    and st: "storages resolved 0 ''response'' = Some list_reply"
    by (simp_all add: resolved_def waiting_def connected_def)
  show ?thesis
    using a p n e st register_replaces_entry [OF a, of "''r1''"]
          register_replaces_entry [OF a, of "''r2''"]
    by (auto simp del: One_nat_def)
qed

section \<open>Commands without a connection\<close>

text \<open>
  Claim C6. While no connection is registered, \<^verbatim>\<open>/list\<close> and \<^verbatim>\<open>/tps\<close> answer with
  the "not connected" reply and end: the reply is the only effect (nothing is sent to
  the game process), the handler itself changes nothing in the state (the table gets
  no entry; the state after is what the other tasks made of it during the reply), and
  neither the send nor the wait of the invocation is reached.
\<close>

theorem command_unavailable:
  assumes "minecraft_client s = None"
  shows "list_command rq s =
           (raises (reply_await rq), interfere (reply_await rq) s,
            [InteractionReply NotConnectedMsg])
       \<and> tps_command rq s =
           (raises (reply_await rq), interfere (reply_await rq) s,
            [InteractionReply NotConnectedMsg])"
  using assms by (simp add: list_command_def tps_command_def command_def)

theorem command_unavailable_witness:
  "minecraft_client disconnected = None
   \<and> list_command answered disconnected =
       (None, disconnected, [InteractionReply NotConnectedMsg])
   \<and> tps_command answered disconnected =
       (None, disconnected, [InteractionReply NotConnectedMsg])"
  using command_unavailable [of disconnected answered]
  by (simp add: disconnected_def answered_def returns_def)

section \<open>The connection registry\<close>

lemma ws_finally_clears:
  assumes "\<forall>t. minecraft_client (interfere aw t) = minecraft_client t"
  shows "minecraft_client (fst (snd (ws_finally aw s))) = None"
  using assms
  by (simp add: ws_finally_def clear_client_def channel_send_def Let_def split: option.splits)

text \<open>
  The cleanup of line 114 does not look at what the registry holds: every run of the
  handler that reaches its \<^verbatim>\<open>finally\<close> block leaves the registry empty, whichever
  handle was registered then, unless another task registers a connection during the
  last announcement.
\<close>

lemma cleanup_clears_any_handle:
  assumes "fst (ws_until_close cfg loads websocket conn s) = None"
    and "\<forall>t. minecraft_client (interfere (offline_await conn) t) = minecraft_client t"
  shows "minecraft_client (fst (snd (websocket_handler cfg loads websocket conn s))) = None"
proof -
  obtain s4 es where u: "ws_until_close cfg loads websocket conn s = (None, s4, es)"
    using assms(1) by (cases "ws_until_close cfg loads websocket conn s") auto
  obtain r' s5 es4 where f: "ws_finally (offline_await conn) s4 = (r', s5, es4)"
    by (cases "ws_finally (offline_await conn) s4") auto
  have "minecraft_client s5 = None"
    using ws_finally_clears [OF assms(2), of s4] f by simp
  then show ?thesis
    using u f by (simp add: websocket_handler_def)
qed

text \<open>
  Claim C4 is what the comment of lines 42 and 43 asks of the registry, that it stores
  the active connection, and the code breaks it. The handler of connection 1 is still
  in its read loop when connection 2 registers itself (line 93). When the loop of
  connection 1 ends, the registry holds handle 2; the cleanup of connection 1 assigns
  \<^verbatim>\<open>None\<close> all the same, so the registry is empty while connection 2 is active, where
  the claim keeps handle 2 registered.
\<close>

theorem displaced_cleanup_clears_new_connection:
  "minecraft_client (fst (snd (ws_until_close cfg0 decode 1 replaced connected))) = Some 2
   \<and> minecraft_client (fst (snd (websocket_handler cfg0 decode 1 replaced connected))) = None"
  by (simp add: websocket_handler_def ws_until_close_def ws_finally_def channel_send_def
        set_client_def clear_client_def replaced_def returns_def connected_def)

section \<open>The read loop\<close>

text \<open>
  Claim C8. A message that \<^verbatim>\<open>json.loads\<close> rejects is logged and dropped: handling it
  changes nothing in the state and emits the log line only (no notification, no
  routing), and the loop goes on with the frames that follow on the same connection.
  For \<^verbatim>\<open>JSONDecodeError\<close> the line is that of line 108; any other exception of the
  decoder is logged by line 110, with the same outcome.
\<close>

theorem malformed_frame_dropped:
  assumes "loads (message f) = Inl e"
  shows "handle_frame cfg loads f s =
           (s, [LogError (if e = JSONDecodeError then InvalidJSON (message f)
                          else ProcessingError e)])
       \<and> read_loop cfg loads (f # fs) s =
           (fst (read_loop cfg loads fs (arrival f s)),
            LogError (if e = JSONDecodeError then InvalidJSON (message f)
                      else ProcessingError e)
              # snd (read_loop cfg loads fs (arrival f s)))"
  using assms by (simp add: handle_frame_def split: prod.splits)

theorem malformed_frame_dropped_witness:
  "decode (message (inbound ''{oops'')) = Inl JSONDecodeError
   \<and> handle_frame cfg0 decode (inbound ''{oops'') waiting =
       (waiting, [LogError (InvalidJSON ''{oops'')])
   \<and> read_loop cfg0 decode [inbound ''{oops'', inbound list_reply_text] waiting =
       (fst (read_loop cfg0 decode [inbound list_reply_text] waiting),
        LogError (InvalidJSON ''{oops'') # snd (read_loop cfg0 decode [inbound list_reply_text] waiting))
   \<and> storages (fst (read_loop cfg0 decode [inbound ''{oops'', inbound list_reply_text] waiting)) 0
       ''response'' = Some list_reply"
  using malformed_frame_dropped
          [of decode "inbound ''{oops''" JSONDecodeError cfg0 waiting "[inbound list_reply_text]"]
  by (simp add: decode_def list_reply_text_def late_reply_text_def nameless_chat_text_def
        inbound_def handle_frame_def process_minecraft_event_def
        resolve_def list_reply_def waiting_def connected_def returns_def)

text \<open>
  Claim C10. When a frame decodes and \<^verbatim>\<open>process_minecraft_event\<close> raises on it, the
  loop logs the exception after whatever the handler had emitted, and goes on with the
  frames that follow, from the state the handler left; the loop itself returns
  normally. A chat event without \<^verbatim>\<open>player\<close> raises \<^verbatim>\<open>KeyError\<close> in this way.
\<close>

theorem failing_frame_logged_and_skipped:
  assumes "loads (message f) = Inr data"
    and "process_minecraft_event cfg data (call f) (webhook_response f) (arrival f s)
           = (Some e, s', es)"
  shows "read_loop cfg loads (f # fs) s =
           (fst (read_loop cfg loads fs s'),
            es @ LogError (if e = JSONDecodeError then InvalidJSON (message f)
                           else ProcessingError e)
               # snd (read_loop cfg loads fs s'))"
  using assms by (simp add: handle_frame_def split: prod.splits)

theorem failing_frame_logged_and_skipped_witness:
  "decode (message (inbound nameless_chat_text)) = Inr nameless_chat
   \<and> process_minecraft_event cfg0 nameless_chat returns HttpOk waiting =
       (Some (KeyError ''player''), waiting, [])
   \<and> read_loop cfg0 decode [inbound nameless_chat_text, inbound list_reply_text] waiting =
       (fst (read_loop cfg0 decode [inbound list_reply_text] waiting),
        LogError (ProcessingError (KeyError ''player''))
          # snd (read_loop cfg0 decode [inbound list_reply_text] waiting))
   \<and> storages (fst (read_loop cfg0 decode [inbound nameless_chat_text, inbound list_reply_text] waiting)) 0
       ''response'' = Some list_reply"
  using failing_frame_logged_and_skipped
          [of decode "inbound nameless_chat_text" nameless_chat cfg0 waiting "KeyError ''player''"
              waiting "[]" "[inbound list_reply_text]"]
  by (simp add: decode_def list_reply_text_def late_reply_text_def nameless_chat_text_def
        inbound_def handle_frame_def process_minecraft_event_def
        resolve_def list_reply_def nameless_chat_def waiting_def connected_def returns_def
        cfg0_def webhook_target_def)

section \<open>The outbound relay\<close>

text \<open>
  Claim C9 as stated fails. A message that another bot posts in the bridged channel
  reaches \<^verbatim>\<open>on_message\<close> while the game process is connected, and nothing is sent.
\<close>

theorem bot_message_not_forwarded:
  "minecraft_client connected = Some 1
   \<and> Some (user_id (author other_bot)) \<noteq> client_user cfg0
   \<and> channel_id other_bot = CHANNEL_ID cfg0
   \<and> on_message cfg0 other_bot returns connected = (None, connected, [])"
  by (simp add: on_message_def other_bot_def cfg0_def connected_def)

text \<open>
  Claim C9, amended. A message of the configured channel whose author is neither the
  bot's own account nor a bot account is, while a connection is active, sent over it
  as the object with \<^verbatim>\<open>type\<close> \<^verbatim>\<open>discord_chat\<close>, the author's display name and the
  text. A message of another channel, of the bot itself or of a bot account is dropped.
  While no connection is active every message is dropped: nothing is emitted, nothing
  is raised, the state is unchanged.
\<close>

theorem chat_forwarded_or_dropped:
  "(Some (user_id (author m)) \<noteq> client_user cfg \<and> channel_id m = CHANNEL_ID cfg
      \<and> \<not> bot (author m) \<and> minecraft_client s = Some h \<longrightarrow>
      on_message cfg m aw s =
        (raises aw, interfere aw s,
         [WsSend h (JObj [(''type'', JStr ''discord_chat''),
                          (''author'', JStr (display_name (author m))),
                          (''message'', JStr (content m))])]))
   \<and> (Some (user_id (author m)) = client_user cfg \<or> channel_id m \<noteq> CHANNEL_ID cfg
      \<or> bot (author m) \<longrightarrow> on_message cfg m aw s = (None, s, []))
   \<and> (minecraft_client s = None \<longrightarrow> on_message cfg m aw s = (None, s, []))"
  by (auto simp: on_message_def split: option.splits)

theorem chat_forwarded_or_dropped_witness:
  "on_message cfg0 alice returns connected =
     (None, connected,
      [WsSend 1 (JObj [(''type'', JStr ''discord_chat''), (''author'', JStr ''Alice''),
                       (''message'', JStr ''hello'')])])
   \<and> on_message cfg0 other_bot returns connected = (None, connected, [])
   \<and> on_message cfg0 alice returns disconnected = (None, disconnected, [])"
  using chat_forwarded_or_dropped [of alice cfg0 connected 1 returns]
        chat_forwarded_or_dropped [of other_bot cfg0 connected 1 returns]
        chat_forwarded_or_dropped [of alice cfg0 disconnected 1 returns]
  by (simp add: alice_def other_bot_def cfg0_def connected_def disconnected_def returns_def)

end
